theory Spec2Isabelle
  imports Main "HOL-Library.AList" "HOL-Library.Sublist" "HOL-Library.Word"
begin

section \<open>Python values\<close>

text \<open>
  The request body and the provider's reply are JSON-shaped Python values. A float is an
  IEEE-754 double, identified by its 64 bits: the service only copies floats, it never
  computes with them. A dict is an association list keyed by strings, read with
  \<open>map_of\<close> and written with \<open>AList.update\<close> (replace in place, or
  append), which is the insertion order of a Python dict.
\<close>

type_synonym pyfloat = "64 word"

datatype pyval =
    PNone
  | PBool bool
  | PInt int
  | PFloat pyfloat
  | PStr string
  | PList "pyval list"
  | PDict "(string \<times> pyval) list"

type_synonym kwargs = "(string \<times> pyval) list"

text \<open>
  The exceptions that can be raised inside the handlers (all are subclasses of
  \<open>Exception\<close>). \<open>ProviderError d\<close> is an exception of the provider
  client whose \<open>str()\<close> is \<open>d\<close>. Iterating a value that is not
  iterable and subscripting a value that is no dict with a string raise a
  \<open>TypeError\<close>, calling \<open>get\<close> on a value that is no dict an
  \<open>AttributeError\<close>; these keep the offending value. A pydantic
  \<open>ValidationError\<close> keeps the model's name and the offending fields.
\<close>

datatype exception =
    ProviderError string
  | ValueError string
  | KeyError string
  | TypeError_iter pyval
  | TypeError_index pyval
  | AttributeError_get pyval
  | ValidationError string "string list"

text \<open>
  What the service takes from outside the repository: pydantic's lax coercions of a
  value that does not already have the annotated type (they differ between pydantic
  releases), and the message text of the interpreter's and pydantic's own exceptions.
\<close>

record library =
  lax_str :: "pyval \<Rightarrow> string option"
  lax_int :: "pyval \<Rightarrow> int option"
  lax_bool :: "pyval \<Rightarrow> bool option"
  lax_float :: "pyval \<Rightarrow> pyfloat option"
  describe :: "exception \<Rightarrow> string"

text \<open>The library instance that coerces nothing: a value validates only at its own type.\<close>

definition strict :: library where
  "strict = \<lparr> lax_str = (\<lambda>_. None), lax_int = (\<lambda>_. None), lax_bool = (\<lambda>_. None),
     lax_float = (\<lambda>_. None), describe = (\<lambda>_. ''error'') \<rparr>"

text \<open>Sequencing of statements that may raise: the first exception ends the block.\<close>

definition seq :: "exception + 'a \<Rightarrow> ('a \<Rightarrow> exception + 'b) \<Rightarrow> exception + 'b" where
  "seq m f = (case m of Inl e \<Rightarrow> Inl e | Inr x \<Rightarrow> f x)"

text \<open>
  \<open>str(e)\<close>. A \<open>KeyError\<close> prints the \<open>repr\<close> of its key: for a key of
  printable ASCII characters with no single quote and no backslash that is the key
  between single quotes; any other key is quoted or escaped by the interpreter, whose
  text is the library's.
\<close>

definition plain_char :: "char \<Rightarrow> bool" where
  "plain_char c =
     (32 \<le> (of_char c :: nat) \<and> (of_char c :: nat) \<le> 126 \<and> c \<noteq> CHR 0x27 \<and> c \<noteq> CHR 0x5C)"

definition str_exc :: "library \<Rightarrow> exception \<Rightarrow> string" where
  "str_exc lib e =
     (case e of
        ProviderError d \<Rightarrow> d
      | ValueError m \<Rightarrow> m
      | KeyError k \<Rightarrow>
          if list_all plain_char k then [CHR 0x27] @ k @ [CHR 0x27] else describe lib e
      | _ \<Rightarrow> describe lib e)"

text \<open>\<open>r[k]\<close>, \<open>r.get(k, default)\<close> and \<open>for r in v\<close>.\<close>

fun py_getitem :: "pyval \<Rightarrow> string \<Rightarrow> exception + pyval" where
  "py_getitem (PDict d) k = (case map_of d k of None \<Rightarrow> Inl (KeyError k) | Some v \<Rightarrow> Inr v)"
| "py_getitem v k = Inl (TypeError_index v)"

fun py_get :: "pyval \<Rightarrow> string \<Rightarrow> pyval \<Rightarrow> exception + pyval" where
  "py_get (PDict d) k dflt = Inr (case map_of d k of None \<Rightarrow> dflt | Some v \<Rightarrow> v)"
| "py_get v k dflt = Inl (AttributeError_get v)"

fun py_iter :: "pyval \<Rightarrow> exception + pyval list" where
  "py_iter (PList xs) = Inr xs"
| "py_iter (PDict d) = Inr (map (\<lambda>kv. PStr (fst kv)) d)"
| "py_iter (PStr s) = Inr (map (\<lambda>c. PStr [c]) s)"
| "py_iter v = Inl (TypeError_iter v)"

section \<open>The pydantic models of app.py\<close>

text \<open>
  Field validation: a value that already has the annotated type is kept as it is;
  any other value goes through the library's lax coercion. An \<open>Optional\<close> field
  accepts \<open>None\<close>.
\<close>

definition coerce_str :: "library \<Rightarrow> pyval \<Rightarrow> string option" where
  "coerce_str lib v = (case v of PStr s \<Rightarrow> Some s | _ \<Rightarrow> lax_str lib v)"

definition coerce_int :: "library \<Rightarrow> pyval \<Rightarrow> int option" where
  "coerce_int lib v = (case v of PInt n \<Rightarrow> Some n | _ \<Rightarrow> lax_int lib v)"

definition coerce_bool :: "library \<Rightarrow> pyval \<Rightarrow> bool option" where
  "coerce_bool lib v = (case v of PBool b \<Rightarrow> Some b | _ \<Rightarrow> lax_bool lib v)"

definition coerce_float :: "library \<Rightarrow> pyval \<Rightarrow> pyfloat option" where
  "coerce_float lib v = (case v of PFloat x \<Rightarrow> Some x | _ \<Rightarrow> lax_float lib v)"

fun coerce_all :: "('b \<Rightarrow> 'a option) \<Rightarrow> 'b list \<Rightarrow> 'a list option" where
  "coerce_all f [] = Some []"
| "coerce_all f (v # vs) =
     (case f v of None \<Rightarrow> None
      | Some x \<Rightarrow> (case coerce_all f vs of None \<Rightarrow> None | Some xs \<Rightarrow> Some (x # xs)))"

definition coerce_str_list :: "library \<Rightarrow> pyval \<Rightarrow> string list option" where
  "coerce_str_list lib v = (case v of PList vs \<Rightarrow> coerce_all (coerce_str lib) vs | _ \<Rightarrow> None)"

definition optional :: "(pyval \<Rightarrow> 'a option) \<Rightarrow> pyval \<Rightarrow> 'a option option" where
  "optional f v = (if v = PNone then Some None else map_option Some (f v))"

text \<open>A field of the request body: required, or with the default of its declaration.\<close>

definition required :: "(pyval \<Rightarrow> 'a option) \<Rightarrow> pyval option \<Rightarrow> 'a option" where
  "required f given = (case given of None \<Rightarrow> None | Some v \<Rightarrow> f v)"

definition with_default ::
  "'a option \<Rightarrow> (pyval \<Rightarrow> 'a option) \<Rightarrow> pyval option \<Rightarrow> 'a option option" where
  "with_default dflt f given = (case given of None \<Rightarrow> Some dflt | Some v \<Rightarrow> optional f v)"

definition invalid :: "string \<Rightarrow> 'a option \<Rightarrow> string list" where
  "invalid name r = (case r of None \<Rightarrow> [name] | Some _ \<Rightarrow> [])"

record SearchResult =
  title :: string
  url :: string
  content :: string
  score :: pyfloat
  published_date :: "string option"

record SearchResponse =
  query :: string
  answer :: "string option"
  results :: "SearchResult list"

record SearchRequest =
  query :: string
  search_depth :: "string option"
  max_results :: "int option"
  include_answer :: "bool option"
  include_raw_content :: "bool option"
  include_images :: "bool option"
  include_domains :: "string list option"
  exclude_domains :: "string list option"

text \<open>
  \<open>SearchRequest\<close> from a request body: every offending field is reported. The
  fields are read with \<open>the\<close> only where the error list is empty, that is where
  each of them validated.
\<close>

definition validate_SearchRequest :: "library \<Rightarrow> pyval \<Rightarrow> string list + SearchRequest" where
  "validate_SearchRequest lib body =
     (case body of
        PDict d \<Rightarrow>
          (let q = required (coerce_str lib) (map_of d ''query'');
               sd = with_default (Some ''advanced'') (coerce_str lib) (map_of d ''search_depth'');
               mr = with_default (Some 8) (coerce_int lib) (map_of d ''max_results'');
               ia = with_default (Some True) (coerce_bool lib) (map_of d ''include_answer'');
               irc = with_default (Some False) (coerce_bool lib) (map_of d ''include_raw_content'');
               ii = with_default (Some False) (coerce_bool lib) (map_of d ''include_images'');
               idom = with_default None (coerce_str_list lib) (map_of d ''include_domains'');
               edom = with_default None (coerce_str_list lib) (map_of d ''exclude_domains'');
               errs = invalid ''query'' q @ invalid ''search_depth'' sd @ invalid ''max_results'' mr
                 @ invalid ''include_answer'' ia @ invalid ''include_raw_content'' irc
                 @ invalid ''include_images'' ii @ invalid ''include_domains'' idom
                 @ invalid ''exclude_domains'' edom
           in if errs = []
              then Inr \<lparr> SearchRequest.query = the q, search_depth = the sd, max_results = the mr,
                     include_answer = the ia, include_raw_content = the irc,
                     include_images = the ii, include_domains = the idom,
                     exclude_domains = the edom \<rparr>
              else Inl errs)
      | _ \<Rightarrow> Inl [''body''])"

text \<open>\<open>SearchResult(title=t, url=u, content=c, score=s, published_date=p)\<close>.\<close>

definition SearchResult_init ::
  "library \<Rightarrow> pyval \<Rightarrow> pyval \<Rightarrow> pyval \<Rightarrow> pyval \<Rightarrow> pyval \<Rightarrow> exception + SearchResult" where
  "SearchResult_init lib t u c s p =
     (case (coerce_str lib t, coerce_str lib u, coerce_str lib c, coerce_float lib s,
            optional (coerce_str lib) p) of
        (Some t', Some u', Some c', Some s', Some p') \<Rightarrow>
          Inr \<lparr> title = t', url = u', content = c', score = s', published_date = p' \<rparr>
      | (rt, ru, rc, rs, rp) \<Rightarrow>
          Inl (ValidationError ''SearchResult''
                 (invalid ''title'' rt @ invalid ''url'' ru @ invalid ''content'' rc
                  @ invalid ''score'' rs @ invalid ''published_date'' rp)))"

text \<open>\<open>SearchResponse(query=q, answer=a, results=rs)\<close>, \<open>q\<close> a string already.\<close>

definition SearchResponse_init ::
  "library \<Rightarrow> string \<Rightarrow> pyval \<Rightarrow> SearchResult list \<Rightarrow> exception + SearchResponse" where
  "SearchResponse_init lib q a rs =
     (case optional (coerce_str lib) a of
        Some a' \<Rightarrow> Inr \<lparr> SearchResponse.query = q, answer = a', results = rs \<rparr>
      | None \<Rightarrow> Inl (ValidationError ''SearchResponse'' [''answer'']))"

section \<open>The search handler\<close>

text \<open>
  The provider client: \<open>tavily.search(query=q, **kwargs)\<close> returns a reply or
  raises. The handlers thread a log of the calls made to it, so that how often the
  provider is invoked, and with what, is part of their result.
\<close>

type_synonym provider = "string \<Rightarrow> kwargs \<Rightarrow> exception + pyval"

type_synonym call_log = "(string \<times> kwargs) list"

definition tavily_search ::
  "provider \<Rightarrow> string \<Rightarrow> kwargs \<Rightarrow> call_log \<Rightarrow> (exception + pyval) \<times> call_log" where
  "tavily_search tavily q kw log = (tavily q kw, log @ [(q, kw)])"

text \<open>What the service answers instead of a body: FastAPI maps a request that fails
  validation to status 422, and an \<open>HTTPException\<close> to its own status code.\<close>

datatype http_error =
    HTTPException nat string
  | RequestValidationError "string list"

fun status_code :: "http_error \<Rightarrow> nat" where
  "status_code (HTTPException code _) = code"
| "status_code (RequestValidationError _) = 422"

fun detail :: "http_error \<Rightarrow> string" where
  "detail (HTTPException _ d) = d"
| "detail (RequestValidationError _) = []"

text \<open>A field of the validated request as the keyword argument it is passed as.\<close>

definition py_opt :: "('a \<Rightarrow> pyval) \<Rightarrow> 'a option \<Rightarrow> pyval" where
  "py_opt f x = (case x of None \<Rightarrow> PNone | Some v \<Rightarrow> f v)"

definition py_strs :: "string list \<Rightarrow> pyval" where
  "py_strs xs = PList (map PStr xs)"

text \<open>The truth value of an optional list in \<open>if request.include_domains:\<close>.\<close>

definition truthy :: "'a list option \<Rightarrow> bool" where
  "truthy x = (case x of None \<Rightarrow> False | Some xs \<Rightarrow> xs \<noteq> [])"

text \<open>Lines 65 to 75 of app.py: the dict literal, then the two conditional stores.\<close>

definition search_params :: "SearchRequest \<Rightarrow> kwargs" where
  "search_params request =
     (let p0 = [(''search_depth'', py_opt PStr (search_depth request)),
                (''max_results'', py_opt PInt (max_results request)),
                (''include_answer'', py_opt PBool (include_answer request)),
                (''include_raw_content'', py_opt PBool (include_raw_content request)),
                (''include_images'', py_opt PBool (include_images request))];
          p1 = (if truthy (include_domains request)
                then AList.update ''include_domains'' (py_opt py_strs (include_domains request)) p0
                else p0);
          p2 = (if truthy (exclude_domains request)
                then AList.update ''exclude_domains'' (py_opt py_strs (exclude_domains request)) p1
                else p1)
      in p2)"

text \<open>One element of the comprehension of lines 84 to 93: the four subscripts and the
  \<open>get\<close> are evaluated in this order, then the model is built.\<close>

definition result_of :: "library \<Rightarrow> pyval \<Rightarrow> exception + SearchResult" where
  "result_of lib r =
     seq (py_getitem r ''title'') (\<lambda>t.
     seq (py_getitem r ''url'') (\<lambda>u.
     seq (py_getitem r ''content'') (\<lambda>c.
     seq (py_getitem r ''score'') (\<lambda>s.
     seq (py_get r ''published_date'' PNone) (\<lambda>p.
     SearchResult_init lib t u c s p)))))"

fun structured_results :: "library \<Rightarrow> pyval list \<Rightarrow> exception + SearchResult list" where
  "structured_results lib [] = Inr []"
| "structured_results lib (r # rs) =
     seq (result_of lib r) (\<lambda>x.
     seq (structured_results lib rs) (\<lambda>xs. Inr (x # xs)))"

text \<open>\<open>response.get("results", [])\<close>, iterated.\<close>

definition reply_entries :: "pyval \<Rightarrow> exception + pyval list" where
  "reply_entries response = seq (py_get response ''results'' (PList [])) py_iter"

text \<open>The body of the \<open>try\<close> of \<open>perform_search\<close>, after the provider replied.\<close>

definition parse_reply :: "library \<Rightarrow> SearchRequest \<Rightarrow> pyval \<Rightarrow> exception + SearchResponse" where
  "parse_reply lib request response =
     seq (reply_entries response) (\<lambda>entries.
     seq (structured_results lib entries) (\<lambda>structured.
     seq (py_get response ''answer'' PNone) (\<lambda>a.
     SearchResponse_init lib (SearchRequest.query request) a structured)))"

definition perform_search ::
  "library \<Rightarrow> provider \<Rightarrow> SearchRequest \<Rightarrow> call_log \<Rightarrow> (http_error + SearchResponse) \<times> call_log" where
  "perform_search lib tavily request log =
     (case tavily_search tavily (SearchRequest.query request) (search_params request) log of
        (reply, log') \<Rightarrow>
          (case seq reply (parse_reply lib request) of
             Inl e \<Rightarrow> Inl (HTTPException 500 (''Tavily search error: '' @ str_exc lib e))
           | Inr response \<Rightarrow> Inr response,
           log'))"

text \<open>\<open>POST /search\<close>: the body is validated before the handler runs.\<close>

definition post_search ::
  "library \<Rightarrow> provider \<Rightarrow> pyval \<Rightarrow> call_log \<Rightarrow> (http_error + SearchResponse) \<times> call_log" where
  "post_search lib tavily body log =
     (case validate_SearchRequest lib body of
        Inl errs \<Rightarrow> (Inl (RequestValidationError errs), log)
      | Inr request \<Rightarrow> perform_search lib tavily request log)"

text \<open>\<open>GET /quick-search\<close>: the provider is called with the query alone, and the
  reply is passed on as a plain dict.\<close>

definition quick_search ::
  "library \<Rightarrow> provider \<Rightarrow> string \<Rightarrow> call_log \<Rightarrow> (http_error + kwargs) \<times> call_log" where
  "quick_search lib tavily q log =
     (case tavily_search tavily q [] log of
        (reply, log') \<Rightarrow>
          (case seq reply (\<lambda>response.
                  seq (py_get response ''answer'' PNone) (\<lambda>a.
                  seq (py_get response ''results'' PNone) (\<lambda>rs.
                  Inr [(''query'', PStr q), (''answer'', a), (''results'', rs)]))) of
             Inl e \<Rightarrow> Inl (HTTPException 500 (''Quick search error: '' @ str_exc lib e))
           | Inr d \<Rightarrow> Inr d,
           log'))"

section \<open>Start of the process\<close>

text \<open>
  Lines 15 to 23 of app.py, run once when the module is loaded. \<open>load_dotenv()\<close>
  adds the entries of the .env file that the process environment does not set already;
  \<open>os.getenv\<close> then reads the key, and an absent or empty key raises. The
  application object, with its routes, exists only after that.
\<close>

type_synonym environment = "string \<rightharpoonup> string"

definition load_dotenv :: "environment \<Rightarrow> environment \<Rightarrow> environment" where
  "load_dotenv dotenv environ = dotenv ++ environ"

definition module_init :: "environment \<Rightarrow> environment \<Rightarrow> exception + string" where
  "module_init dotenv environ =
     (case load_dotenv dotenv environ ''TAVILY_API_KEY'' of
        None \<Rightarrow> Inl (ValueError ''TAVILY_API_KEY not set in environment variables'')
      | Some key \<Rightarrow>
          if key = [] then Inl (ValueError ''TAVILY_API_KEY not set in environment variables'')
          else Inr key)"

text \<open>The process: it serves the bodies posted to /search, each with a fresh call log,
  once the module has loaded; \<open>remote key\<close> is the provider reached with that key.\<close>

definition serve ::
  "library \<Rightarrow> (string \<Rightarrow> provider) \<Rightarrow> environment \<Rightarrow> environment \<Rightarrow> pyval list
     \<Rightarrow> exception + ((http_error + SearchResponse) \<times> call_log) list" where
  "serve lib remote dotenv environ bodies =
     (case module_init dotenv environ of
        Inl e \<Rightarrow> Inl e
      | Inr key \<Rightarrow> Inr (map (\<lambda>body. post_search lib (remote key) body []) bodies))"

section \<open>The test doubles of test_app.py\<close>

text \<open>\<open>MockTavily\<close> of \<open>test_search_endpoint\<close> answers every call with the
  same reply (the score 0.9 is the double 0x3FECCCCCCCCCCCCD); \<open>MockTavilyError\<close>
  raises \<open>Exception("Tavily API is down")\<close>.\<close>

definition mock_entry :: pyval where
  "mock_entry =
     PDict [(''title'', PStr ''Test''), (''url'', PStr ''http://test.com''),
            (''content'', PStr ''...''), (''score'', PFloat 0x3FECCCCCCCCCCCCD)]"

definition mock_response :: "string \<Rightarrow> pyval" where
  "mock_response payload_query =
     PDict [(''query'', PStr payload_query), (''answer'', PStr ''Mock answer''),
            (''results'', PList [mock_entry])]"

definition MockTavily :: "string \<Rightarrow> provider" where
  "MockTavily payload_query q kw = Inr (mock_response payload_query)"

definition MockTavilyError :: provider where
  "MockTavilyError q kw = Inl (ProviderError ''Tavily API is down'')"

text \<open>The first payload of \<open>test_search_endpoint\<close>, and the request it validates to.\<close>

definition robotics_payload :: pyval where
  "robotics_payload =
     PDict [(''query'', PStr ''latest robotics 2025''), (''search_depth'', PStr ''advanced''),
            (''max_results'', PInt 5), (''include_answer'', PBool True)]"

definition robotics_request :: SearchRequest where
  "robotics_request =
     \<lparr> SearchRequest.query = ''latest robotics 2025'', search_depth = Some ''advanced'',
       max_results = Some 5, include_answer = Some True, include_raw_content = Some False,
       include_images = Some False, include_domains = None, exclude_domains = None \<rparr>"

section \<open>Vocabulary of the statements\<close>

text \<open>The keys of a keyword-argument dict.\<close>

definition keys :: "kwargs \<Rightarrow> string set" where
  "keys kw = fst ` set kw"

text \<open>A provider entry that is a dict with the four required keys.\<close>

definition has_required :: "pyval \<Rightarrow> bool" where
  "has_required e =
     (case e of
        PDict d \<Rightarrow> list_all (\<lambda>k. map_of d k \<noteq> None) [''title'', ''url'', ''content'', ''score'']
      | _ \<Rightarrow> False)"

text \<open>The value that \<open>d.get(k)\<close> reads.\<close>

definition dict_get :: "(string \<times> pyval) list \<Rightarrow> string \<Rightarrow> pyval" where
  "dict_get d k = (case map_of d k of None \<Rightarrow> PNone | Some v \<Rightarrow> v)"

text \<open>A result built from an entry that is a dict with the four required keys: its
  fields are the validated values of the entry's, and its date that of the entry's
  optional one.\<close>

definition from_entry :: "library \<Rightarrow> pyval \<Rightarrow> SearchResult \<Rightarrow> bool" where
  "from_entry lib e r =
     (case e of
        PDict d \<Rightarrow>
          (case (map_of d ''title'', map_of d ''url'', map_of d ''content'', map_of d ''score'') of
             (Some t, Some u, Some c, Some s) \<Rightarrow>
               coerce_str lib t = Some (title r) \<and> coerce_str lib u = Some (url r)
               \<and> coerce_str lib c = Some (content r) \<and> coerce_float lib s = Some (score r)
               \<and> optional (coerce_str lib) (dict_get d ''published_date'') = Some (published_date r)
           | _ \<Rightarrow> False)
      | _ \<Rightarrow> False)"

text \<open>An optional text of the reply: absent (no key, or \<open>None\<close>) or that text.\<close>

definition text_or_absent :: "pyval option \<Rightarrow> string option \<Rightarrow> bool" where
  "text_or_absent given x =
     (case x of None \<Rightarrow> given = None \<or> given = Some PNone | Some s \<Rightarrow> given = Some (PStr s))"

text \<open>A provider entry of the documented shape, and the result that copies its fields.\<close>

definition copy_of :: "pyval \<Rightarrow> SearchResult \<Rightarrow> bool" where
  "copy_of e r =
     (case e of
        PDict d \<Rightarrow>
          map_of d ''title'' = Some (PStr (title r)) \<and> map_of d ''url'' = Some (PStr (url r))
          \<and> map_of d ''content'' = Some (PStr (content r))
          \<and> map_of d ''score'' = Some (PFloat (score r))
          \<and> text_or_absent (map_of d ''published_date'') (published_date r)
      | _ \<Rightarrow> False)"

section \<open>Inputs of the examples\<close>

text \<open>A provider that answers every call with the same reply, as \<open>MockTavily\<close> does.\<close>

definition replying :: "pyval \<Rightarrow> provider" where
  "replying reply q kw = Inr reply"

text \<open>The result that the entry of \<open>MockTavily\<close> is mapped to.\<close>

definition mock_result :: SearchResult where
  "mock_result =
     \<lparr> title = ''Test'', url = ''http://test.com'', content = ''...'',
       score = 0x3FECCCCCCCCCCCCD, published_date = None \<rparr>"

text \<open>A reply whose only entry has a title and nothing else.\<close>

definition incomplete_reply :: pyval where
  "incomplete_reply = PDict [(''results'', PList [PDict [(''title'', PStr ''Test'')]])]"

text \<open>A reply with no results whose answer is a list, not a text.\<close>

definition list_answer_reply :: pyval where
  "list_answer_reply = PDict [(''answer'', PList [PStr ''a'', PStr ''b'']), (''results'', PList [])]"

text \<open>A reply with no results and no answer.\<close>

definition empty_reply :: pyval where
  "empty_reply = PDict [(''results'', PList [])]"

section \<open>Sequencing and the dict operations\<close>

lemma seq_Inr_iff: "seq m f = Inr y \<longleftrightarrow> (\<exists>x. m = Inr x \<and> f x = Inr y)"
  by (cases m) (simp_all add: seq_def)

lemma seq_Inr [simp]: "seq (Inr x) f = f x"
  by (simp add: seq_def)

lemma seq_Inl [simp]: "seq (Inl e) f = Inl e"
  by (simp add: seq_def)

lemma py_getitem_Inr: "py_getitem e k = Inr v \<Longrightarrow> \<exists>d. e = PDict d \<and> map_of d k = Some v"
  by (cases e) (auto split: option.splits)

lemma truthy_simps:
  "truthy None = False" "truthy (Some []) = False" "truthy (Some (x # xs)) = True"
  by (simp_all add: truthy_def)

section \<open>The provider call\<close>

lemma keys_search_params:
  "keys (search_params request) =
     {''search_depth'', ''max_results'', ''include_answer'', ''include_raw_content'', ''include_images''}
     \<union> (if truthy (include_domains request) then {''include_domains''} else {})
     \<union> (if truthy (exclude_domains request) then {''exclude_domains''} else {})"
  by (auto simp: search_params_def keys_def Let_def AList.dom_update)

lemma map_of_search_params:
  "map_of (search_params request) k =
     (if k = ''search_depth'' then Some (py_opt PStr (search_depth request))
      else if k = ''max_results'' then Some (py_opt PInt (max_results request))
      else if k = ''include_answer'' then Some (py_opt PBool (include_answer request))
      else if k = ''include_raw_content'' then Some (py_opt PBool (include_raw_content request))
      else if k = ''include_images'' then Some (py_opt PBool (include_images request))
      else if k = ''include_domains'' \<and> truthy (include_domains request)
        then Some (py_opt py_strs (include_domains request))
      else if k = ''exclude_domains'' \<and> truthy (exclude_domains request)
        then Some (py_opt py_strs (exclude_domains request))
      else None)"
  by (simp add: search_params_def Let_def AList.update_conv')

lemma perform_search_log:
  "snd (perform_search lib tavily request log) =
     log @ [(SearchRequest.query request, search_params request)]"
  by (simp add: perform_search_def tavily_search_def)

lemma search_params_robotics:
  "search_params robotics_request =
     [(''search_depth'', PStr ''advanced''), (''max_results'', PInt 5),
      (''include_answer'', PBool True), (''include_raw_content'', PBool False),
      (''include_images'', PBool False)]"
  by (simp add: search_params_def robotics_request_def py_opt_def truthy_def)

text \<open>
  C4: when \<open>include_domains\<close> and \<open>exclude_domains\<close> of the validated request are
  absent, the one provider call that the full search makes carries neither key: an
  absent filter is not passed on as an empty list, it is not passed on at all.
\<close>

theorem absent_domains_not_sent:
  assumes "include_domains request = None" and "exclude_domains request = None"
  shows "\<exists>kw. snd (perform_search lib tavily request []) = [(SearchRequest.query request, kw)]
           \<and> ''include_domains'' \<notin> keys kw \<and> ''exclude_domains'' \<notin> keys kw"
  using assms by (simp add: perform_search_log keys_search_params truthy_simps)

theorem absent_domains_not_sent_witness:
  "include_domains robotics_request = None \<and> exclude_domains robotics_request = None
   \<and> (\<exists>kw. snd (perform_search strict (MockTavily ''latest robotics 2025'') robotics_request [])
              = [(SearchRequest.query robotics_request, kw)]
            \<and> ''include_domains'' \<notin> keys kw \<and> ''exclude_domains'' \<notin> keys kw)"
proof -
  have absent: "include_domains robotics_request = None" "exclude_domains robotics_request = None"
    by (simp_all add: robotics_request_def)
  from absent absent_domains_not_sent [OF absent] show ?thesis by simp
qed

text \<open>
  C10: a request whose \<open>include_domains\<close> (or \<open>exclude_domains\<close>) is an explicitly
  empty list builds the same provider parameters as the request with that field absent,
  and the key is not among them: the test is on the value being non-empty.
\<close>

theorem empty_domains_as_absent:
  "search_params (request\<lparr>include_domains := Some []\<rparr>)
     = search_params (request\<lparr>include_domains := None\<rparr>)
   \<and> search_params (request\<lparr>exclude_domains := Some []\<rparr>)
     = search_params (request\<lparr>exclude_domains := None\<rparr>)
   \<and> (include_domains request = Some [] \<longrightarrow> ''include_domains'' \<notin> keys (search_params request))
   \<and> (exclude_domains request = Some [] \<longrightarrow> ''exclude_domains'' \<notin> keys (search_params request))"
  by (simp add: search_params_def truthy_simps keys_def Let_def AList.dom_update)

theorem empty_domains_as_absent_witness:
  "include_domains (robotics_request\<lparr>include_domains := Some []\<rparr>) = Some []
   \<and> ''include_domains'' \<notin> keys (search_params (robotics_request\<lparr>include_domains := Some []\<rparr>))
   \<and> exclude_domains (robotics_request\<lparr>exclude_domains := Some []\<rparr>) = Some []
   \<and> ''exclude_domains'' \<notin> keys (search_params (robotics_request\<lparr>exclude_domains := Some []\<rparr>))"
proof -
  let ?a = "robotics_request\<lparr>include_domains := Some []\<rparr>"
  let ?b = "robotics_request\<lparr>exclude_domains := Some []\<rparr>"
  have a: "include_domains ?a = Some []" and b: "exclude_domains ?b = Some []"
    by simp_all
  from a empty_domains_as_absent [of ?a]
  have "''include_domains'' \<notin> keys (search_params ?a)" by blast
  moreover from b empty_domains_as_absent [of ?b]
  have "''exclude_domains'' \<notin> keys (search_params ?b)" by blast
  ultimately show ?thesis using a b by blast
qed

text \<open>
  C2, as amended: the one provider call of the full search carries the request's query
  and, under their own names, always the five scalar fields \<open>search_depth\<close>,
  \<open>max_results\<close>, \<open>include_answer\<close>, \<open>include_raw_content\<close> and
  \<open>include_images\<close> with the request's values (a default as any other value, an
  explicit null as \<open>None\<close>); \<open>include_domains\<close> and
  \<open>exclude_domains\<close> are in the call exactly when they are non-empty lists; and
  the call has no other parameter.
\<close>

theorem provider_call_parameters:
  "snd (perform_search lib tavily request []) =
     [(SearchRequest.query request, search_params request)]
   \<and> map_of (search_params request) k =
     (if k = ''search_depth''
        then Some (case search_depth request of None \<Rightarrow> PNone | Some s \<Rightarrow> PStr s)
      else if k = ''max_results''
        then Some (case max_results request of None \<Rightarrow> PNone | Some n \<Rightarrow> PInt n)
      else if k = ''include_answer''
        then Some (case include_answer request of None \<Rightarrow> PNone | Some b \<Rightarrow> PBool b)
      else if k = ''include_raw_content''
        then Some (case include_raw_content request of None \<Rightarrow> PNone | Some b \<Rightarrow> PBool b)
      else if k = ''include_images''
        then Some (case include_images request of None \<Rightarrow> PNone | Some b \<Rightarrow> PBool b)
      else if k = ''include_domains''
        then (case include_domains request of
                None \<Rightarrow> None
              | Some ds \<Rightarrow> if ds = [] then None else Some (PList (map PStr ds)))
      else if k = ''exclude_domains''
        then (case exclude_domains request of
                None \<Rightarrow> None
              | Some ds \<Rightarrow> if ds = [] then None else Some (PList (map PStr ds)))
      else None)"
  by (simp add: perform_search_log map_of_search_params py_opt_def py_strs_def truthy_def
      split: option.splits)

theorem provider_call_parameters_witness:
  "snd (perform_search strict (MockTavily ''latest robotics 2025'') robotics_request []) =
     [(''latest robotics 2025'', search_params robotics_request)]
   \<and> map_of (search_params robotics_request) ''max_results'' = Some (PInt 5)
   \<and> map_of (search_params robotics_request) ''include_domains'' = None"
  using provider_call_parameters [of strict "MockTavily ''latest robotics 2025''" robotics_request
      "''max_results''"]
    provider_call_parameters [of strict "MockTavily ''latest robotics 2025''" robotics_request
      "''include_domains''"]
  by (simp add: robotics_request_def)

text \<open>
  C2 as stated fails: the validated request of the test payload leaves
  \<open>include_raw_content\<close> and \<open>include_images\<close> at their defaults (and gives
  \<open>search_depth\<close> and \<open>include_answer\<close> their default values), and all of
  them are in the provider call.
\<close>

theorem default_parameters_are_sent:
  "validate_SearchRequest strict robotics_payload = Inr robotics_request
   \<and> snd (perform_search strict (MockTavily ''latest robotics 2025'') robotics_request []) =
     [(''latest robotics 2025'',
       [(''search_depth'', PStr ''advanced''), (''max_results'', PInt 5),
        (''include_answer'', PBool True), (''include_raw_content'', PBool False),
        (''include_images'', PBool False)])]"
  by (simp add: perform_search_log search_params_robotics)
    (simp add: robotics_request_def robotics_payload_def validate_SearchRequest_def required_def
      with_default_def optional_def invalid_def coerce_str_def coerce_int_def coerce_bool_def)

section \<open>Upstream failures\<close>

lemma perform_search_raise:
  assumes "tavily (SearchRequest.query request) (search_params request) = Inl e"
  shows "perform_search lib tavily request log =
           (Inl (HTTPException 500 (''Tavily search error: '' @ str_exc lib e)),
            log @ [(SearchRequest.query request, search_params request)])"
  using assms by (simp add: perform_search_def tavily_search_def)

lemma quick_search_raise:
  assumes "tavily q [] = Inl e"
  shows "quick_search lib tavily q log =
           (Inl (HTTPException 500 (''Quick search error: '' @ str_exc lib e)), log @ [(q, [])])"
  using assms by (simp add: quick_search_def tavily_search_def)

lemma str_exc_ProviderError: "str_exc lib (ProviderError d) = d"
  by (simp add: str_exc_def)

lemma perform_search_provider_error:
  assumes "tavily (SearchRequest.query request) (search_params request) = Inl (ProviderError d)"
  shows "perform_search lib tavily request log =
           (Inl (HTTPException 500 (''Tavily search error: '' @ d)),
            log @ [(SearchRequest.query request, search_params request)])"
    and "sublist d (detail (projl (fst (perform_search lib tavily request log))))"
    and "status_code (projl (fst (perform_search lib tavily request log))) = 500"
proof -
  show eq: "perform_search lib tavily request log =
      (Inl (HTTPException 500 (''Tavily search error: '' @ d)),
       log @ [(SearchRequest.query request, search_params request)])"
    using assms perform_search_raise [of tavily request "ProviderError d" lib log]
    by (simp only: str_exc_ProviderError)
  show "sublist d (detail (projl (fst (perform_search lib tavily request log))))"
    unfolding eq by (simp only: fst_conv sum.sel detail.simps sublist_append_leftI)
  show "status_code (projl (fst (perform_search lib tavily request log))) = 500"
    unfolding eq by simp
qed

lemma quick_search_provider_error:
  assumes "tavily q [] = Inl (ProviderError d)"
  shows "quick_search lib tavily q log =
           (Inl (HTTPException 500 (''Quick search error: '' @ d)), log @ [(q, [])])"
    and "sublist d (detail (projl (fst (quick_search lib tavily q log))))"
    and "status_code (projl (fst (quick_search lib tavily q log))) = 500"
proof -
  show eq: "quick_search lib tavily q log =
      (Inl (HTTPException 500 (''Quick search error: '' @ d)), log @ [(q, [])])"
    using assms quick_search_raise [of tavily q "ProviderError d" lib log]
    by (simp only: str_exc_ProviderError)
  show "sublist d (detail (projl (fst (quick_search lib tavily q log))))"
    unfolding eq by (simp only: fst_conv sum.sel detail.simps sublist_append_leftI)
  show "status_code (projl (fst (quick_search lib tavily q log))) = 500"
    unfolding eq by simp
qed

text \<open>
  C5: when the provider call fails with an exception whose description is \<open>d\<close>, the
  full search and the minimal search each answer with an HTTP error of status 500 whose
  detail is a fixed prefix followed by \<open>d\<close> itself, so the description of the
  failure is contained in the detail; the result is this error and nothing else, and
  the call log shows the single call that failed (no second attempt). Whatever the
  exception that the provider call raises, the result is an HTTP error of status 500
  after that single call.
\<close>

theorem provider_failure_is_upstream_error:
  "(tavily (SearchRequest.query request) (search_params request) = Inl (ProviderError d) \<longrightarrow>
      perform_search lib tavily request log =
        (Inl (HTTPException 500 (''Tavily search error: '' @ d)),
         log @ [(SearchRequest.query request, search_params request)])
      \<and> sublist d (detail (projl (fst (perform_search lib tavily request log))))
      \<and> status_code (projl (fst (perform_search lib tavily request log))) = 500)
   \<and> (tavily q [] = Inl (ProviderError d) \<longrightarrow>
      quick_search lib tavily q log =
        (Inl (HTTPException 500 (''Quick search error: '' @ d)), log @ [(q, [])])
      \<and> sublist d (detail (projl (fst (quick_search lib tavily q log))))
      \<and> status_code (projl (fst (quick_search lib tavily q log))) = 500)
   \<and> (tavily (SearchRequest.query request) (search_params request) = Inl e \<longrightarrow>
      (\<exists>shown. perform_search lib tavily request log =
         (Inl (HTTPException 500 shown),
          log @ [(SearchRequest.query request, search_params request)])))
   \<and> (tavily q [] = Inl e \<longrightarrow>
      (\<exists>shown. quick_search lib tavily q log =
         (Inl (HTTPException 500 shown), log @ [(q, [])])))"
  using perform_search_provider_error [of tavily request d lib log]
    quick_search_provider_error [of tavily q d lib log]
    perform_search_raise [of tavily request e lib log] quick_search_raise [of tavily q e lib log]
  by blast

theorem provider_failure_is_upstream_error_witness:
  "MockTavilyError (SearchRequest.query robotics_request) (search_params robotics_request)
     = Inl (ProviderError ''Tavily API is down'')
   \<and> perform_search strict MockTavilyError robotics_request [] =
     (Inl (HTTPException 500 ''Tavily search error: Tavily API is down''),
      [(''latest robotics 2025'', search_params robotics_request)])
   \<and> sublist ''Tavily API is down''
       (detail (projl (fst (perform_search strict MockTavilyError robotics_request []))))
   \<and> MockTavilyError ''anything'' [] = Inl (ProviderError ''Tavily API is down'')
   \<and> quick_search strict MockTavilyError ''anything'' [] =
     (Inl (HTTPException 500 ''Quick search error: Tavily API is down''), [(''anything'', [])])
   \<and> sublist ''Tavily API is down''
       (detail (projl (fst (quick_search strict MockTavilyError ''anything'' []))))"
proof -
  have raised: "MockTavilyError (SearchRequest.query robotics_request) (search_params robotics_request)
      = Inl (ProviderError ''Tavily API is down'')"
    "MockTavilyError ''anything'' [] = Inl (ProviderError ''Tavily API is down'')"
    by (simp_all add: MockTavilyError_def)
  have name: "SearchRequest.query robotics_request = ''latest robotics 2025''"
    by (simp add: robotics_request_def)
  note failure = provider_failure_is_upstream_error [where tavily = MockTavilyError
      and request = robotics_request and d = "''Tavily API is down''" and lib = strict
      and log = "[]" and q = "''anything''" and e = "ProviderError ''Tavily API is down''"]
  from failure raised(1)
  have full: "perform_search strict MockTavilyError robotics_request [] =
      (Inl (HTTPException 500 (''Tavily search error: '' @ ''Tavily API is down'')),
       [] @ [(SearchRequest.query robotics_request, search_params robotics_request)])"
    and full_text: "sublist ''Tavily API is down''
      (detail (projl (fst (perform_search strict MockTavilyError robotics_request []))))"
    by blast+
  from failure raised(2)
  have quick: "quick_search strict MockTavilyError ''anything'' [] =
      (Inl (HTTPException 500 (''Quick search error: '' @ ''Tavily API is down'')),
       [] @ [(''anything'', [])])"
    and quick_text: "sublist ''Tavily API is down''
      (detail (projl (fst (quick_search strict MockTavilyError ''anything'' []))))"
    by blast+
  from full name
  have "perform_search strict MockTavilyError robotics_request [] =
      (Inl (HTTPException 500 ''Tavily search error: Tavily API is down''),
       [(''latest robotics 2025'', search_params robotics_request)])"
    by simp
  moreover from quick
  have "quick_search strict MockTavilyError ''anything'' [] =
      (Inl (HTTPException 500 ''Quick search error: Tavily API is down''), [(''anything'', [])])"
    by simp
  ultimately show ?thesis using raised full_text quick_text by blast
qed

section \<open>The missing credential\<close>

text \<open>
  C6: when \<open>TAVILY_API_KEY\<close> is set neither in the process environment nor by the
  .env file, loading the module raises the \<open>ValueError\<close> of line 20, and the
  process serves no request at all, whatever requests are waiting: the failure is that
  of the start, not an error answered to a request.
\<close>

theorem missing_key_aborts_startup:
  assumes "environ ''TAVILY_API_KEY'' = None" and "dotenv ''TAVILY_API_KEY'' = None"
  shows "module_init dotenv environ =
           Inl (ValueError ''TAVILY_API_KEY not set in environment variables'')
         \<and> serve lib remote dotenv environ bodies =
           Inl (ValueError ''TAVILY_API_KEY not set in environment variables'')"
  using assms by (simp add: serve_def module_init_def load_dotenv_def map_add_def)

theorem missing_key_aborts_startup_witness:
  "(Map.empty :: environment) ''TAVILY_API_KEY'' = None
   \<and> serve strict MockTavily Map.empty Map.empty [robotics_payload] =
     Inl (ValueError ''TAVILY_API_KEY not set in environment variables'')"
proof -
  have unset: "(Map.empty :: environment) ''TAVILY_API_KEY'' = None" by simp
  from unset missing_key_aborts_startup [OF unset unset, of strict MockTavily "[robotics_payload]"]
  show ?thesis by simp
qed

section \<open>Mapping the reply\<close>

lemma SearchResult_init_Inr:
  "SearchResult_init lib t u c s p = Inr r \<Longrightarrow>
     coerce_str lib t = Some (title r) \<and> coerce_str lib u = Some (url r)
     \<and> coerce_str lib c = Some (content r) \<and> coerce_float lib s = Some (score r)
     \<and> optional (coerce_str lib) p = Some (published_date r)"
  by (auto simp: SearchResult_init_def split: option.splits)

lemma SearchResponse_init_Inr:
  "SearchResponse_init lib q a rs = Inr response \<Longrightarrow>
     results response = rs \<and> SearchResponse.query response = q
     \<and> optional (coerce_str lib) a = Some (answer response)"
  by (auto simp: SearchResponse_init_def split: option.splits)

lemma result_of_from_entry:
  assumes "result_of lib e = Inr r"
  shows "from_entry lib e r"
proof -
  from assms obtain t u c s p where
    t: "py_getitem e ''title'' = Inr t" and u: "py_getitem e ''url'' = Inr u" and
    c: "py_getitem e ''content'' = Inr c" and s: "py_getitem e ''score'' = Inr s" and
    p: "py_get e ''published_date'' PNone = Inr p" and
    i: "SearchResult_init lib t u c s p = Inr r"
    unfolding result_of_def seq_Inr_iff by blast
  from t obtain d where d: "e = PDict d" "map_of d ''title'' = Some t"
    using py_getitem_Inr by blast
  from u c s d have "map_of d ''url'' = Some u" "map_of d ''content'' = Some c"
    "map_of d ''score'' = Some s"
    by (auto split: option.splits)
  moreover from p d have "p = dict_get d ''published_date''"
    by (auto simp: dict_get_def)
  ultimately show ?thesis
    using d SearchResult_init_Inr [OF i] by (simp add: from_entry_def)
qed

lemma structured_results_from_entries:
  "structured_results lib es = Inr rs \<Longrightarrow> list_all2 (from_entry lib) es rs"
proof (induction es arbitrary: rs)
  case Nil
  then show ?case by simp
next
  case (Cons e es)
  then show ?case
    by (auto simp: seq_Inr_iff result_of_from_entry)
qed

lemma from_entry_has_required: "from_entry lib e r \<Longrightarrow> has_required e"
  by (auto simp: from_entry_def has_required_def split: pyval.splits option.splits)

lemma structured_results_has_required:
  "structured_results lib es = Inr rs \<Longrightarrow> list_all has_required es"
  by (induction es arbitrary: rs)
    (auto simp: seq_Inr_iff dest: result_of_from_entry from_entry_has_required)

lemma parse_reply_Inr:
  assumes "parse_reply lib request reply = Inr response"
  shows "\<exists>d entries. reply = PDict d \<and> reply_entries reply = Inr entries
           \<and> structured_results lib entries = Inr (results response)
           \<and> SearchResponse.query response = SearchRequest.query request
           \<and> optional (coerce_str lib) (dict_get d ''answer'') = Some (answer response)"
proof -
  from assms obtain entries structured a where
    entries: "reply_entries reply = Inr entries" and
    structured: "structured_results lib entries = Inr structured" and
    a: "py_get reply ''answer'' PNone = Inr a" and
    init: "SearchResponse_init lib (SearchRequest.query request) a structured = Inr response"
    unfolding parse_reply_def seq_Inr_iff by blast
  from a obtain d where d: "reply = PDict d" "a = dict_get d ''answer''"
    by (cases reply) (auto simp: dict_get_def)
  with entries structured SearchResponse_init_Inr [OF init] show ?thesis
    by auto
qed

lemma perform_search_Inr:
  "fst (perform_search lib tavily request log) = Inr response \<longleftrightarrow>
     (\<exists>reply. tavily (SearchRequest.query request) (search_params request) = Inr reply
        \<and> parse_reply lib request reply = Inr response)"
  by (auto simp: perform_search_def tavily_search_def seq_def split: sum.splits)

lemma perform_search_Inl:
  "fst (perform_search lib tavily request log) = Inl err \<Longrightarrow> \<exists>d. err = HTTPException 500 d"
  by (auto simp: perform_search_def tavily_search_def split: sum.splits)

lemma perform_search_reply:
  "tavily (SearchRequest.query request) (search_params request) = Inr reply \<Longrightarrow>
     fst (perform_search lib tavily request log) =
       (case parse_reply lib request reply of
          Inl e \<Rightarrow> Inl (HTTPException 500 (''Tavily search error: '' @ str_exc lib e))
        | Inr response \<Rightarrow> Inr response)"
  by (simp add: perform_search_def tavily_search_def)

lemma optional_text:
  "text_or_absent given x \<Longrightarrow>
     optional (coerce_str lib) (case given of None \<Rightarrow> PNone | Some v \<Rightarrow> v) = Some x"
  by (auto simp: text_or_absent_def optional_def coerce_str_def split: option.splits)

lemma result_of_copy:
  assumes "copy_of e r"
  shows "result_of lib e = Inr r"
proof -
  from assms obtain d where d: "e = PDict d"
    and f: "map_of d ''title'' = Some (PStr (title r))" "map_of d ''url'' = Some (PStr (url r))"
      "map_of d ''content'' = Some (PStr (content r))" "map_of d ''score'' = Some (PFloat (score r))"
    and p: "text_or_absent (map_of d ''published_date'') (published_date r)"
    by (auto simp: copy_of_def split: pyval.splits)
  have "SearchResult_init lib (PStr (title r)) (PStr (url r)) (PStr (content r)) (PFloat (score r))
          (case map_of d ''published_date'' of None \<Rightarrow> PNone | Some v \<Rightarrow> v) = Inr r"
    by (simp add: SearchResult_init_def coerce_str_def coerce_float_def optional_text [OF p])
  with d f show ?thesis
    by (simp add: result_of_def)
qed

lemma structured_results_copy:
  "list_all2 copy_of es rs \<Longrightarrow> structured_results lib es = Inr rs"
  by (induction es rs rule: list_all2_induct) (simp_all add: result_of_copy)

lemma parse_reply_copy:
  assumes "map_of d ''results'' = Some (PList es)" and "list_all2 copy_of es rs"
    and "text_or_absent (map_of d ''answer'') a"
  shows "parse_reply lib request (PDict d) =
           Inr \<lparr> SearchResponse.query = SearchRequest.query request, answer = a, results = rs \<rparr>"
  using assms
  by (simp add: parse_reply_def reply_entries_def structured_results_copy SearchResponse_init_def
      optional_text)

lemma copy_of_mock: "copy_of mock_entry mock_result"
  by (simp add: copy_of_def mock_entry_def mock_result_def text_or_absent_def)

text \<open>
  C1: whatever the provider does, the full search either returns a response each of whose
  results was built, in order, from a provider entry that is a dict with all four of
  \<open>title\<close>, \<open>url\<close>, \<open>content\<close> and \<open>score\<close> (the result's fields being the
  validated values of the entry's), or it fails as a whole with the HTTP error 500.
  In particular, when some entry of the reply lacks a required field the whole call
  fails: no shorter list is returned.
\<close>

theorem perform_search_all_or_nothing:
  "((\<exists>response reply entries.
        fst (perform_search lib tavily request log) = Inr response
        \<and> tavily (SearchRequest.query request) (search_params request) = Inr reply
        \<and> reply_entries reply = Inr entries
        \<and> list_all has_required entries
        \<and> list_all2 (from_entry lib) entries (results response))
    \<or> (\<exists>d. fst (perform_search lib tavily request log) = Inl (HTTPException 500 d)))
   \<and> (tavily (SearchRequest.query request) (search_params request) = Inr reply'
        \<and> reply_entries reply' = Inr entries' \<and> \<not> list_all has_required entries'
      \<longrightarrow> (\<exists>d. fst (perform_search lib tavily request log) = Inl (HTTPException 500 d)))"
proof (cases "fst (perform_search lib tavily request log)")
  case (Inl err)
  then show ?thesis using perform_search_Inl by blast
next
  case (Inr response)
  then obtain reply where
    reply: "tavily (SearchRequest.query request) (search_params request) = Inr reply" and
    parse: "parse_reply lib request reply = Inr response"
    unfolding perform_search_Inr by blast
  from parse_reply_Inr [OF parse] obtain entries where
    entries: "reply_entries reply = Inr entries" and
    built: "structured_results lib entries = Inr (results response)"
    by blast
  have "list_all has_required entries" "list_all2 (from_entry lib) entries (results response)"
    using built structured_results_has_required structured_results_from_entries by blast+
  with Inr reply entries show ?thesis by auto
qed

theorem perform_search_all_or_nothing_witness:
  "replying incomplete_reply (SearchRequest.query robotics_request) (search_params robotics_request)
     = Inr incomplete_reply
   \<and> reply_entries incomplete_reply = Inr [PDict [(''title'', PStr ''Test'')]]
   \<and> \<not> list_all has_required [PDict [(''title'', PStr ''Test'')]]
   \<and> (\<exists>d. fst (perform_search strict (replying incomplete_reply) robotics_request [])
             = Inl (HTTPException 500 d))
   \<and> fst (perform_search strict (replying incomplete_reply) robotics_request [])
       = Inl (HTTPException 500 (''Tavily search error: '' @ str_exc strict (KeyError ''url'')))"
proof -
  have reply: "replying incomplete_reply (SearchRequest.query robotics_request)
      (search_params robotics_request) = Inr incomplete_reply"
    by (simp add: replying_def)
  have entries: "reply_entries incomplete_reply = Inr [PDict [(''title'', PStr ''Test'')]]"
    by (simp add: reply_entries_def incomplete_reply_def)
  have lacking: "\<not> list_all has_required [PDict [(''title'', PStr ''Test'')]]"
    by (simp add: has_required_def)
  have failed: "\<exists>d. fst (perform_search strict (replying incomplete_reply) robotics_request [])
      = Inl (HTTPException 500 d)"
    using perform_search_all_or_nothing [of strict "replying incomplete_reply" robotics_request "[]"
        incomplete_reply "[PDict [(''title'', PStr ''Test'')]]"] reply entries lacking
    by blast
  have "parse_reply strict robotics_request incomplete_reply = Inl (KeyError ''url'')"
    by (simp add: parse_reply_def entries result_of_def)
  then have "fst (perform_search strict (replying incomplete_reply) robotics_request [])
      = Inl (HTTPException 500 (''Tavily search error: '' @ str_exc strict (KeyError ''url'')))"
    using reply
      perform_search_reply [of "replying incomplete_reply" robotics_request incomplete_reply strict "[]"]
    by simp
  with reply entries lacking failed show ?thesis by blast
qed

text \<open>
  C7: whenever the full search returns a response, its query is the request's, its
  results are built from the entries of the provider's reply one by one in the
  provider's order (each field the validated value of the entry's field, the date that
  of the entry's optional one), and its answer is the validated answer of the reply.
  And it does return on a reply of the documented shape: when the entries carry texts
  for \<open>title\<close>, \<open>url\<close>, \<open>content\<close>, a float for \<open>score\<close> and a text or
  nothing for \<open>published_date\<close>, and the answer is a text or missing, the response
  has the request's query, that answer (absent when missing) and exactly the copies of
  the entries, in order, with \<open>published_date\<close> absent where the entry has none.
\<close>

theorem search_response_copies_reply:
  "(fst (perform_search lib tavily request log) = Inr response \<longrightarrow>
      SearchResponse.query response = SearchRequest.query request
      \<and> (\<exists>d entries.
            tavily (SearchRequest.query request) (search_params request) = Inr (PDict d)
            \<and> reply_entries (PDict d) = Inr entries
            \<and> list_all2 (from_entry lib) entries (results response)
            \<and> optional (coerce_str lib) (dict_get d ''answer'') = Some (answer response)))
   \<and> (tavily (SearchRequest.query request) (search_params request) = Inr (PDict d')
      \<and> map_of d' ''results'' = Some (PList es) \<and> list_all2 copy_of es rs
      \<and> text_or_absent (map_of d' ''answer'') a \<longrightarrow>
      fst (perform_search lib tavily request log) =
        Inr \<lparr> SearchResponse.query = SearchRequest.query request, answer = a, results = rs \<rparr>)"
proof (intro conjI impI)
  assume "fst (perform_search lib tavily request log) = Inr response"
  then obtain reply where
    reply: "tavily (SearchRequest.query request) (search_params request) = Inr reply" and
    parse: "parse_reply lib request reply = Inr response"
    unfolding perform_search_Inr by blast
  from parse_reply_Inr [OF parse] obtain d entries where
    parts: "reply = PDict d" "reply_entries reply = Inr entries"
      "structured_results lib entries = Inr (results response)"
      "SearchResponse.query response = SearchRequest.query request"
      "optional (coerce_str lib) (dict_get d ''answer'') = Some (answer response)"
    by blast
  from parts show "SearchResponse.query response = SearchRequest.query request"
    by simp
  from reply parts structured_results_from_entries [of lib entries "results response"]
  show "\<exists>d entries.
      tavily (SearchRequest.query request) (search_params request) = Inr (PDict d)
      \<and> reply_entries (PDict d) = Inr entries
      \<and> list_all2 (from_entry lib) entries (results response)
      \<and> optional (coerce_str lib) (dict_get d ''answer'') = Some (answer response)"
    by blast
next
  assume "tavily (SearchRequest.query request) (search_params request) = Inr (PDict d')
    \<and> map_of d' ''results'' = Some (PList es) \<and> list_all2 copy_of es rs
    \<and> text_or_absent (map_of d' ''answer'') a"
  then have reply: "tavily (SearchRequest.query request) (search_params request) = Inr (PDict d')"
    and shape: "map_of d' ''results'' = Some (PList es)" "list_all2 copy_of es rs"
      "text_or_absent (map_of d' ''answer'') a"
    by blast+
  from reply parse_reply_copy [OF shape, of lib request]
    perform_search_reply [of tavily request "PDict d'" lib log]
  show "fst (perform_search lib tavily request log) =
      Inr \<lparr> SearchResponse.query = SearchRequest.query request, answer = a, results = rs \<rparr>"
    by simp
qed

theorem search_response_copies_reply_witness:
  "MockTavily ''latest robotics 2025'' (SearchRequest.query robotics_request)
       (search_params robotics_request)
     = Inr (PDict [(''query'', PStr ''latest robotics 2025''), (''answer'', PStr ''Mock answer''),
                   (''results'', PList [mock_entry])])
   \<and> list_all2 copy_of [mock_entry] [mock_result]
   \<and> fst (perform_search strict (MockTavily ''latest robotics 2025'') robotics_request []) =
       Inr \<lparr> SearchResponse.query = ''latest robotics 2025'', answer = Some ''Mock answer'',
             results = [mock_result] \<rparr>"
proof -
  let ?d = "[(''query'', PStr ''latest robotics 2025''), (''answer'', PStr ''Mock answer''),
             (''results'', PList [mock_entry])]"
  have reply: "MockTavily ''latest robotics 2025'' (SearchRequest.query robotics_request)
      (search_params robotics_request) = Inr (PDict ?d)"
    by (simp add: MockTavily_def mock_response_def)
  have entries: "map_of ?d ''results'' = Some (PList [mock_entry])"
    by simp
  have copies: "list_all2 copy_of [mock_entry] [mock_result]"
    by (simp add: copy_of_mock)
  have answered: "text_or_absent (map_of ?d ''answer'') (Some ''Mock answer'')"
    by (simp add: text_or_absent_def)
  have name: "SearchRequest.query robotics_request = ''latest robotics 2025''"
    by (simp add: robotics_request_def)
  from search_response_copies_reply [of strict "MockTavily ''latest robotics 2025''"
      robotics_request "[]" _ ?d "[mock_entry]" "[mock_result]" "Some ''Mock answer''"]
    reply entries copies answered
  have "fst (perform_search strict (MockTavily ''latest robotics 2025'') robotics_request []) =
      Inr \<lparr> SearchResponse.query = SearchRequest.query robotics_request,
            answer = Some ''Mock answer'', results = [mock_result] \<rparr>"
    by blast
  with reply copies name show ?thesis by simp
qed

text \<open>
  C8, as amended: for every provider reply that is a dict whose result list is empty
  and whose answer is a text or missing (no key, or \<open>None\<close>), the full search
  returns a response, not an error: the request's query, that answer, and no results.
\<close>

theorem empty_results_succeed:
  assumes "tavily (SearchRequest.query request) (search_params request) = Inr (PDict d)"
    and "map_of d ''results'' = Some (PList [])"
    and "text_or_absent (map_of d ''answer'') a"
  shows "fst (perform_search lib tavily request log) =
           Inr \<lparr> SearchResponse.query = SearchRequest.query request, answer = a, results = [] \<rparr>"
proof -
  have "parse_reply lib request (PDict d) =
      Inr \<lparr> SearchResponse.query = SearchRequest.query request, answer = a, results = [] \<rparr>"
    using assms(2,3) parse_reply_copy [of d "[]" "[]" a lib request] by simp
  with assms(1) perform_search_reply [of tavily request "PDict d" lib log]
  show ?thesis by simp
qed

theorem empty_results_succeed_witness:
  "replying empty_reply (SearchRequest.query robotics_request) (search_params robotics_request)
     = Inr (PDict [(''results'', PList [])])
   \<and> text_or_absent (map_of [(''results'', PList [])] ''answer'') None
   \<and> fst (perform_search strict (replying empty_reply) robotics_request []) =
       Inr \<lparr> SearchResponse.query = ''latest robotics 2025'', answer = None, results = [] \<rparr>"
proof -
  let ?d = "[(''results'', PList [])]"
  have reply: "replying empty_reply (SearchRequest.query robotics_request)
      (search_params robotics_request) = Inr (PDict ?d)"
    by (simp add: replying_def empty_reply_def)
  have none: "map_of ?d ''results'' = Some (PList [])"
    by simp
  have unanswered: "text_or_absent (map_of ?d ''answer'') None"
    by (simp add: text_or_absent_def)
  have name: "SearchRequest.query robotics_request = ''latest robotics 2025''"
    by (simp add: robotics_request_def)
  from empty_results_succeed [where tavily = "replying empty_reply" and request = robotics_request
      and d = ?d and a = None and lib = strict and log = "[]"] reply none unanswered name
  show ?thesis by simp
qed

text \<open>
  C8 as stated fails: a reply with an empty result list whose answer is a list is
  refused when the response is built (\<open>answer\<close> is declared an optional text), and
  the full search answers with the error 500.
\<close>

theorem empty_results_with_list_answer_fail:
  "reply_entries list_answer_reply = Inr []
   \<and> fst (perform_search strict (replying list_answer_reply) robotics_request []) =
       Inl (HTTPException 500
             (''Tavily search error: ''
              @ str_exc strict (ValidationError ''SearchResponse'' [''answer''])))"
proof -
  have entries: "reply_entries list_answer_reply = Inr []"
    by (simp add: reply_entries_def list_answer_reply_def)
  have "py_get list_answer_reply ''answer'' PNone = Inr (PList [PStr ''a'', PStr ''b''])"
    by (simp add: list_answer_reply_def)
  then have "parse_reply strict robotics_request list_answer_reply =
      Inl (ValidationError ''SearchResponse'' [''answer''])"
    by (simp add: parse_reply_def entries SearchResponse_init_def optional_def coerce_str_def
        strict_def)
  moreover have "replying list_answer_reply (SearchRequest.query robotics_request)
      (search_params robotics_request) = Inr list_answer_reply"
    by (simp add: replying_def)
  ultimately show ?thesis
    using entries
      perform_search_reply [of "replying list_answer_reply" robotics_request list_answer_reply
        strict "[]"]
    by simp
qed

section \<open>Validation of the request\<close>

lemma invalid_set: "name' \<in> set (invalid name r) \<longleftrightarrow> name' = name \<and> r = None"
  by (auto simp: invalid_def split: option.splits)

lemma validate_robotics: "validate_SearchRequest strict robotics_payload = Inr robotics_request"
  by (simp add: robotics_request_def robotics_payload_def validate_SearchRequest_def required_def
      with_default_def optional_def invalid_def coerce_str_def coerce_int_def coerce_bool_def)

text \<open>A body without \<open>query\<close> is refused with status 422 and \<open>query\<close> among the
  offending fields, and the call log is left as it was: the provider is not invoked.\<close>

lemma missing_query_refused:
  assumes "map_of d ''query'' = None"
  shows "\<exists>errs. post_search lib tavily (PDict d) log = (Inl (RequestValidationError errs), log)
           \<and> ''query'' \<in> set errs \<and> status_code (RequestValidationError errs) = 422"
  using assms
  by (simp add: post_search_def validate_SearchRequest_def Let_def required_def invalid_def)

text \<open>
  C9, as amended: \<open>max_results\<close> is an optional integer with default 8. When the body
  does not supply it the validated request has 8; a supplied integer is kept as it is,
  whatever its sign, and an explicit null is kept as absent; and in none of these cases
  is \<open>max_results\<close> among the offending fields of a body that is refused.
\<close>

theorem max_results_default_and_sign:
  "(case validate_SearchRequest lib (PDict d) of
      Inr request \<Rightarrow>
        (map_of d ''max_results'' = None \<longrightarrow> max_results request = Some 8)
        \<and> (map_of d ''max_results'' = Some PNone \<longrightarrow> max_results request = None)
        \<and> (\<forall>n. map_of d ''max_results'' = Some (PInt n) \<longrightarrow> max_results request = Some n)
    | Inl errs \<Rightarrow>
        (map_of d ''max_results'' = None \<or> map_of d ''max_results'' = Some PNone
          \<or> (\<exists>n. map_of d ''max_results'' = Some (PInt n)))
        \<longrightarrow> ''max_results'' \<notin> set errs)"
  by (auto simp: validate_SearchRequest_def Let_def with_default_def optional_def coerce_int_def
      invalid_set split: sum.splits)

theorem max_results_default_and_sign_witness:
  "map_of [(''query'', PStr ''test'')] ''max_results'' = None
   \<and> max_results (projr (validate_SearchRequest strict (PDict [(''query'', PStr ''test'')])))
       = Some 8
   \<and> map_of [(''query'', PStr ''test''), (''max_results'', PInt (- 3))] ''max_results''
       = Some (PInt (- 3))
   \<and> max_results (projr (validate_SearchRequest strict
         (PDict [(''query'', PStr ''test''), (''max_results'', PInt (- 3))]))) = Some (- 3)"
proof -
  let ?d = "[(''query'', PStr ''test'')]"
  let ?e = "[(''query'', PStr ''test''), (''max_results'', PInt (- 3))]"
  have d: "map_of ?d ''max_results'' = None" and e: "map_of ?e ''max_results'' = Some (PInt (- 3))"
    by simp_all
  have valid: "isl (validate_SearchRequest strict (PDict ?d)) = False"
    "isl (validate_SearchRequest strict (PDict ?e)) = False"
    by (simp_all add: validate_SearchRequest_def required_def with_default_def optional_def
        invalid_def coerce_str_def coerce_int_def)
  from valid(1) d max_results_default_and_sign [where lib = strict and d = ?d]
  have "max_results (projr (validate_SearchRequest strict (PDict ?d))) = Some 8"
    by (cases "validate_SearchRequest strict (PDict ?d)") simp_all
  moreover from valid(2) e max_results_default_and_sign [where lib = strict and d = ?e]
  have "max_results (projr (validate_SearchRequest strict (PDict ?e))) = Some (- 3)"
    by (cases "validate_SearchRequest strict (PDict ?e)") simp_all
  ultimately show ?thesis using d e by blast
qed

text \<open>
  C9 as stated fails: a body that supplies \<open>max_results = 0\<close> validates, and the
  validated request has \<open>max_results = 0\<close>.
\<close>

theorem zero_max_results_validates:
  "validate_SearchRequest strict (PDict [(''query'', PStr ''test''), (''max_results'', PInt 0)]) =
     Inr \<lparr> SearchRequest.query = ''test'', search_depth = Some ''advanced'', max_results = Some 0,
           include_answer = Some True, include_raw_content = Some False,
           include_images = Some False, include_domains = None, exclude_domains = None \<rparr>"
  by (simp add: validate_SearchRequest_def required_def with_default_def optional_def invalid_def
      coerce_str_def coerce_int_def)

text \<open>
  C3 at the second payload of \<open>test_search_endpoint\<close>, for which the test expects
  status 422: the body \<open>{"query": ""}\<close> validates, the provider is called once with the
  empty query and the default parameters, and the mocked reply is returned as a response.
\<close>

theorem empty_query_reaches_provider:
  "post_search strict (MockTavily '''') (PDict [(''query'', PStr '''')]) [] =
     (Inr \<lparr> SearchResponse.query = '''', answer = Some ''Mock answer'', results = [mock_result] \<rparr>,
      [('''', [(''search_depth'', PStr ''advanced''), (''max_results'', PInt 8),
              (''include_answer'', PBool True), (''include_raw_content'', PBool False),
              (''include_images'', PBool False)])])"
  by (simp add: post_search_def validate_SearchRequest_def required_def with_default_def
      optional_def invalid_def coerce_str_def coerce_float_def perform_search_def tavily_search_def
      search_params_def py_opt_def truthy_def MockTavily_def mock_response_def mock_entry_def
      mock_result_def parse_reply_def reply_entries_def result_of_def SearchResult_init_def
      SearchResponse_init_def)

end
